theory Spec2Isabelle
  imports Main "HOL-Library.Sublist"
begin

section \<open>The chat application of src/vtai/app.py\<close>

text \<open>
  The program is a set of event callbacks (chat start, inbound message, settings update,
  the "speak" action) over one session store. The embedding keeps the store and everything
  the callbacks emit in an explicit state; the remote services are functions supplied from
  outside; a Python exception is a value of type \<open>exn\<close> returned next to the state
  reached when it was raised (mutations made before a raise stay).
\<close>

subsection \<open>Data\<close>

text \<open>A history entry: the dict \<open>{"role": ..., "content": ...}\<close>.\<close>

record message =
  role :: string
  content :: string

text \<open>
  What the program stores in \<open>cl.user_session\<close>: the history list under the literal key
  \<open>"message_history"\<close>, and strings and booleans (the values of the settings form) under
  the keys named by the constants of \<open>llms_config\<close>.
\<close>

datatype entry = EList "message list" | EStr string | EBool bool

text \<open>
  The values of the settings form of \<open>__build_settings\<close>: five selects (strings) and
  three switches (booleans), one field per widget. The hosting framework keeps them under
  \<open>"chat_settings"\<close> and rewrites them itself when the form is sent or changed; the
  program only reads them, so they are a field of their own in the state, absent
  (\<open>None\<close>) before the form was sent.
\<close>

record settings =
  chat_model :: string
  vision_model :: string
  enable_tts_response :: bool
  tts_model :: string
  tts_voice_preset_model :: string
  use_dynamic_conversation_routing :: bool
  trimmed_messages :: bool

text \<open>A raised exception: the rendering of its type and of its message.\<close>

record exn =
  exn_type :: string
  exn_msg :: string

definition AttributeError :: exn where
  "AttributeError = \<lparr>exn_type = ''<class 'AttributeError'>'',
     exn_msg = ''object has no attribute append''\<rparr>"

definition IndexError :: exn where
  "IndexError = \<lparr>exn_type = ''<class 'IndexError'>'', exn_msg = ''list index out of range''\<rparr>"

definition ValueError :: exn where
  "ValueError = \<lparr>exn_type = ''<class 'ValueError'>'',
     exn_msg = ''Must provide url, path or content to instantiate element''\<rparr>"

text \<open>The elements and actions a \<open>cl.Message\<close> carries to the user interface.\<close>

datatype element =
    ImageUrl string string
  | ImagePath string string
  | Text string string
  | Audio string string

text \<open>
  Building an element (\<open>cl.Image\<close>, \<open>cl.Text\<close>, \<open>cl.Audio\<close>) raises a
  \<open>ValueError\<close> when the url, path or content it is given is empty: the framework's
  constructor refuses an element that has none of the three. \<open>element_source\<close> is the one
  the program passes.
\<close>

fun element_source :: "element \<Rightarrow> string" where
  "element_source (ImageUrl u n) = u"
| "element_source (ImagePath p n) = p"
| "element_source (Text n t) = t"
| "element_source (Audio n p) = p"

definition elements_raise :: "element list \<Rightarrow> bool" where
  "elements_raise els = list_ex (\<lambda>e. element_source e = []) els"

datatype action = Action string string string

record ui_message =
  m_author :: "string option"
  m_content :: string
  m_elements :: "element list"
  m_actions :: "action list"

text \<open>An inbound file attachment (\<open>file.path\<close>, \<open>file.mime\<close>) and an inbound message.\<close>

record attachment =
  path :: string
  mime :: "string option"

record inbound =
  in_content :: string
  in_elements :: "attachment list"

text \<open>
  The five capability handlers, and the observable trace: every message handed to the
  user interface, every call of a remote service, and (as a ghost event) every entry into
  a capability handler. Console prints are left out.
\<close>

datatype handler = ChatCompletion | ImageGeneration | Vision | Transcription | TextToSpeech

datatype event =
    Enter handler
  | Sent ui_message
  | StreamToken string
  | Updated ui_message
  | ActionRemoved
  | CallRoute string
  | CallCompletion "string option" entry
  | CallImageGen string string
  | CallSupportsVision "string option"
  | CallVision "string option" string string
  | CallTranscribe string string
  | CallSpeech "string option" "string option" string
  | StreamToFile string
  | ReadText string

record state =
  user_session :: "string \<rightharpoonup> entry"
  chat_settings :: "settings option"
  log :: "event list"

type_synonym result = "exn option \<times> state"

text \<open>Sequencing: a raised exception skips the rest; \<open>catch\<close> is \<open>try ... except Exception\<close>.\<close>

definition and_then :: "result \<Rightarrow> (state \<Rightarrow> result) \<Rightarrow> result" where
  "and_then r f = (case r of (None, s) \<Rightarrow> f s | (Some e, s) \<Rightarrow> (Some e, s))"

definition catch :: "result \<Rightarrow> (exn \<Rightarrow> state \<Rightarrow> result) \<Rightarrow> result" where
  "catch r h = (case r of (None, s) \<Rightarrow> (None, s) | (Some e, s) \<Rightarrow> h e s)"

definition emit :: "event list \<Rightarrow> state \<Rightarrow> state" where
  "emit evs s = s\<lparr>log := log s @ evs\<rparr>"

subsection \<open>The history store\<close>

text \<open>Python truth value of a stored object, as \<open>x or []\<close> tests it.\<close>

fun truthy :: "entry \<Rightarrow> bool" where
  "truthy (EList h) = (h \<noteq> [])"
| "truthy (EStr t) = (t \<noteq> [])"
| "truthy (EBool b) = b"

text \<open>
  \<open>__update_messages_history_with_context\<close>: returns at once on an empty role or an empty
  context. Otherwise it appends to \<open>cl.user_session.get("message_history") or []\<close>: to the
  stored list itself when that list is non-empty, and to a fresh list that is then dropped
  when the key is absent or the stored object is falsy. A truthy object that is not a list
  has no \<open>append\<close>.
\<close>

definition update_messages_history_with_context :: "string \<Rightarrow> string \<Rightarrow> state \<Rightarrow> result" where
  "update_messages_history_with_context context rl s =
     (if length rl = 0 \<or> length context = 0 then (None, s)
      else (case user_session s ''message_history'' of
              None \<Rightarrow> (None, s)
            | Some (EList h) \<Rightarrow>
                (if h \<noteq> []
                 then (None, s\<lparr>user_session := (user_session s)
                         (''message_history'' \<mapsto> EList (h @ [\<lparr>role = rl, content = context\<rparr>]))\<rparr>)
                 else (None, s))
            | Some e \<Rightarrow> (if truthy e then (Some AttributeError, s) else (None, s))))"

definition update_user_messages_history_with_context :: "string \<Rightarrow> state \<Rightarrow> result" where
  "update_user_messages_history_with_context context s =
     update_messages_history_with_context context ''user'' s"

definition update_assistant_messages_history_with_context :: "string \<Rightarrow> state \<Rightarrow> result" where
  "update_assistant_messages_history_with_context context s =
     update_messages_history_with_context context ''assistant'' s"

text \<open>The stored history as a list: empty when the key is absent or holds no list.\<close>

definition history :: "state \<Rightarrow> message list" where
  "history s = (case user_session s ''message_history'' of Some (EList h) \<Rightarrow> h | _ \<Rightarrow> [])"

definition recognized_role :: "string \<Rightarrow> bool" where
  "recognized_role rl = (rl = ''system'' \<or> rl = ''user'' \<or> rl = ''assistant'')"

subsection \<open>Constants and services from outside app.py\<close>

text \<open>
  The constants of the modules \<open>llms_config\<close> and \<open>constants\<close> that app.py uses:
  session keys, default model names and the two route names it compares with. Their
  values are not in the source, so they are parameters.
\<close>

record conf =
  SETTINGS_CHAT_MODEL :: string
  SETTINGS_VISION_MODEL :: string
  SETTINGS_USE_DYNAMIC_CONVERSATION_ROUTING :: string
  SETTINGS_TTS_MODEL :: string
  SETTINGS_TTS_VOICE_PRESET_MODEL :: string
  SETTINGS_ENABLE_TTS_RESPONSE :: string
  DEFAULT_VISION_MODEL :: string
  DEFAULT_IMAGE_GEN_MODEL :: string
  DEFAULT_WHISPER_MODEL :: string
  IMAGE_GENERATION :: string
  VISION_IMAGE_PROCESSING :: string

text \<open>The first entry of an image-generation response: \<open>url\<close> and \<open>revised_prompt\<close>.\<close>

record image_gen_data =
  url :: string
  revised_prompt :: string

text \<open>
  The third-party services, as functions of their arguments for the duration of one
  callback. Those that can fail return the exception instead of the value. A streamed
  completion is the list of its parts' \<open>delta.content\<close> (empty for \<open>None\<close>) and the
  exception that ended the stream, if one did. \<open>trim_messages\<close> returns a new list and
  leaves its argument alone.
\<close>

record env =
  route_layer :: "string \<Rightarrow> exn + string option"
  trim_messages :: "entry \<Rightarrow> string option \<Rightarrow> entry"
  extract_url :: "string \<Rightarrow> string list"
  acompletion :: "string option \<Rightarrow> entry \<Rightarrow> string list \<times> exn option"
  aimage_generation :: "string \<Rightarrow> string \<Rightarrow> exn + image_gen_data list"
  supports_vision :: "string option \<Rightarrow> bool"
  vision_completion :: "string option \<Rightarrow> string \<Rightarrow> string \<Rightarrow> exn + string"
  transcriptions_create :: "string \<Rightarrow> string \<Rightarrow> exn + string"
  speech_create :: "string option \<Rightarrow> string option \<Rightarrow> string \<Rightarrow> exn option"
  read_text :: "string \<Rightarrow> exn + string"
  temp_dir :: string

subsection \<open>Settings and the messages variable\<close>

text \<open>
  \<open>__get_settings(key)\<close>: \<open>None\<close> when no settings are stored, else the value under the
  key; the key is given as the field it names.
\<close>

definition get_settings :: "(settings \<Rightarrow> 'a) \<Rightarrow> state \<Rightarrow> 'a option" where
  "get_settings key s = (case chat_settings s of None \<Rightarrow> None | Some st \<Rightarrow> Some (key st))"

text \<open>How an f-string prints a model name that may be \<open>None\<close>.\<close>

definition py_str :: "string option \<Rightarrow> string" where
  "py_str v = (case v of None \<Rightarrow> ''None'' | Some t \<Rightarrow> t)"

text \<open>The test \<open>sub in text\<close> on strings.\<close>

fun py_in :: "string \<Rightarrow> string \<Rightarrow> bool" where
  "py_in sub [] = (sub = [])"
| "py_in sub (x # xs) = (prefix sub (x # xs) \<or> py_in sub xs)"

text \<open>
  The local variable \<open>messages\<close> of \<open>on_message\<close>, passed down to the handlers: it is
  \<open>cl.user_session.get("message_history") or []\<close>, so either the stored object itself
  (an alias: later appends to the stored list show through it) or a fresh empty list; after
  trimming it is whatever \<open>trim_messages\<close> returned.
\<close>

datatype msgs = Alias | Local entry

definition session_messages :: "state \<Rightarrow> msgs" where
  "session_messages s =
     (case user_session s ''message_history'' of
        None \<Rightarrow> Local (EList [])
      | Some e \<Rightarrow> (if truthy e then (case e of EList h \<Rightarrow> Alias | _ \<Rightarrow> Local e)
                  else Local (EList [])))"

definition deref :: "state \<Rightarrow> msgs \<Rightarrow> entry" where
  "deref s m =
     (case m of
        Local e \<Rightarrow> e
      | Alias \<Rightarrow> (case user_session s ''message_history'' of None \<Rightarrow> EList [] | Some e \<Rightarrow> e))"

definition set_session :: "string \<Rightarrow> entry \<Rightarrow> state \<Rightarrow> state" where
  "set_session k e s = s\<lparr>user_session := (user_session s)(k \<mapsto> e)\<rparr>"

definition plain_message :: "string \<Rightarrow> ui_message" where
  "plain_message t = \<lparr>m_author = None, m_content = t, m_elements = [], m_actions = []\<rparr>"

definition speak_action :: "string \<Rightarrow> action" where
  "speak_action v = Action ''speak_chat_response_action'' v ''Speak response''"

subsection \<open>The handlers\<close>

text \<open>\<open>__handle_exception_error\<close>: one message to the user, with the type and the message.\<close>

definition failure_message :: "exn \<Rightarrow> ui_message" where
  "failure_message e = plain_message
     (''Something went wrong, please try again. Error type: '' @ exn_type e
        @ '', Error: '' @ exn_msg e)"

definition handle_exception_error :: "exn \<Rightarrow> state \<Rightarrow> result" where
  "handle_exception_error e s = (None, emit [Sent (failure_message e)] s)"

text \<open>
  \<open>__handle_trigger_async_chat\<close>: the whole body is inside \<open>try\<close>. The non-empty parts
  of the stream are passed on as they arrive and extend the content of the current message;
  the history is appended only after the stream has ended.
\<close>

definition handle_trigger_async_chat ::
  "env \<Rightarrow> string option \<Rightarrow> msgs \<Rightarrow> ui_message \<Rightarrow> state \<Rightarrow> result" where
  "handle_trigger_async_chat env llm_model messages current_message s =
     catch
       (let s0 = emit [Enter ChatCompletion] s;
            request = deref s0 messages;
            (parts, failure) = acompletion env llm_model request;
            tokens = filter (\<lambda>t. t \<noteq> []) parts;
            s1 = emit (CallCompletion llm_model request # map StreamToken tokens) s0;
            content = m_content current_message @ concat tokens
        in case failure of
             Some e \<Rightarrow> (Some e, s1)
           | None \<Rightarrow>
               and_then (update_assistant_messages_history_with_context content s1)
                 (\<lambda>s2. (None, emit [Updated (current_message\<lparr>m_content := content,
                     m_actions := (if get_settings enable_tts_response s2 = Some True
                                   then [speak_action content]
                                   else m_actions current_message)\<rparr>)] s2)))
       handle_exception_error"

text \<open>
  \<open>__handle_trigger_async_image_gen\<close>: the announcement is sent before the \<open>try\<close>;
  \<open>image_response["data"][0]\<close> raises on an empty list. The reply with its two elements
  is built before the history is appended, so an empty url or an empty revised prompt
  raises there, inside the \<open>try\<close>, and nothing is appended.
\<close>

definition handle_trigger_async_image_gen :: "conf \<Rightarrow> env \<Rightarrow> string \<Rightarrow> state \<Rightarrow> result" where
  "handle_trigger_async_image_gen c env query s =
     (let image_gen_model = DEFAULT_IMAGE_GEN_MODEL c;
          s0 = emit [Enter ImageGeneration,
                 Sent \<lparr>m_author = Some image_gen_model,
                   m_content = ''Sure! I'll use the `'' @ image_gen_model @
                     ''` model to create an image based on your description. This might take a moment, please be patient.'',
                   m_elements = [], m_actions = []\<rparr>] s
      in catch
           (let s1 = emit [CallImageGen query image_gen_model] s0
            in case aimage_generation env query image_gen_model of
                 Inl e \<Rightarrow> (Some e, s1)
               | Inr [] \<Rightarrow> (Some IndexError, s1)
               | Inr (image_gen_data # _) \<Rightarrow>
                   (let elements = [ImageUrl (url image_gen_data) query,
                                    Text ''Description'' (revised_prompt image_gen_data)]
                    in if elements_raise elements then (Some ValueError, s1)
                       else and_then
                         (update_assistant_messages_history_with_context
                            (revised_prompt image_gen_data) s1)
                         (\<lambda>s2. (None, emit [Sent \<lparr>m_author = Some image_gen_model,
                            m_content = ''Here's the image, along with a refined description based on your input:'',
                            m_elements = elements,
                            m_actions = [speak_action (revised_prompt image_gen_data)]\<rparr>] s2))))
           handle_exception_error)"

text \<open>
  \<open>__handle_vision\<close>: no \<open>try\<close> here, so a failure of the completion call leaves the
  function as an exception, and so does the \<open>ValueError\<close> of building the image element
  from an empty path or url, or the text element from an empty description; both elements
  are built before the history is appended. The last four bytes of the announcement are
  the UTF-8 encoding of its closing pictograph.
\<close>

definition unsupported_vision_notice :: "string option \<Rightarrow> ui_message" where
  "unsupported_vision_notice vm = plain_message
     (''It seems the vision model `'' @ py_str vm @
      ''` doesn't support image processing. Please choose a different model in Settings that offers Vision capabilities.'')"

definition handle_vision :: "conf \<Rightarrow> env \<Rightarrow> string \<Rightarrow> string \<Rightarrow> bool \<Rightarrow> state \<Rightarrow> result" where
  "handle_vision c env input_image prompt is_local s =
     (let s0 = emit [Enter Vision] s;
          vision_model = (if is_local then Some (DEFAULT_VISION_MODEL c)
                          else get_settings vision_model s0);
          s1 = emit [CallSupportsVision vision_model] s0
      in if supports_vision env vision_model = False
         then (None, emit [Sent (unsupported_vision_notice vision_model)] s1)
         else
           (let s2 = emit [Sent \<lparr>m_author = vision_model,
                        m_content = ''Analyzing the image using the `'' @ py_str vision_model @
                          ''` model... This might take a moment. '' @
                          [CHR 0xF0, CHR 0x9F, CHR 0x94, CHR 0x8E],
                        m_elements = [], m_actions = []\<rparr>,
                      CallVision vision_model prompt input_image] s1
            in case vision_completion env vision_model prompt input_image of
                 Inl e \<Rightarrow> (Some e, s2)
               | Inr description \<Rightarrow>
                   (let image = (if is_local then ImagePath input_image prompt
                                 else ImageUrl input_image prompt);
                        elements = [image, Text ''Explain'' description]
                    in if elements_raise elements then (Some ValueError, s2)
                       else and_then
                         (update_assistant_messages_history_with_context description s2)
                         (\<lambda>s3. (None, emit [Sent \<lparr>m_author = vision_model, m_content = [],
                            m_elements = elements,
                            m_actions = [speak_action description]\<rparr>] s3)))))"

text \<open>
  \<open>__handle_audio_transcribe\<close>: no \<open>try\<close> either. The message with the audio and
  the transcript elements is built and sent before the history is appended; an empty path
  or an empty transcript raises when it is built.
\<close>

definition handle_audio_transcribe :: "conf \<Rightarrow> env \<Rightarrow> string \<Rightarrow> state \<Rightarrow> result" where
  "handle_audio_transcribe c env audio_path s =
     (let model = DEFAULT_WHISPER_MODEL c;
          s0 = emit [Enter Transcription, CallTranscribe model audio_path] s
      in case transcriptions_create env model audio_path of
           Inl e \<Rightarrow> (Some e, s0)
         | Inr text \<Rightarrow>
             (let elements = [Audio ''Audio'' audio_path, Text ''Transcript'' text]
              in if elements_raise elements then (Some ValueError, s0)
                 else update_assistant_messages_history_with_context text
                        (emit [Sent \<lparr>m_author = Some model, m_content = [],
                           m_elements = elements, m_actions = []\<rparr>] s0)))"

text \<open>
  \<open>__handle_dynamic_conversation_routing_chat\<close>: the classifier's route name (possibly
  \<open>None\<close>) is compared with two names only; every other name takes the last branch.
  Trimming rebinds the local \<open>messages\<close>.
\<close>

definition handle_dynamic_conversation_routing_chat ::
  "conf \<Rightarrow> env \<Rightarrow> msgs \<Rightarrow> string option \<Rightarrow> ui_message \<Rightarrow> string \<Rightarrow> state \<Rightarrow> result" where
  "handle_dynamic_conversation_routing_chat c env messages model msg query s =
     (let s0 = emit [CallRoute query] s
      in case route_layer env query of
           Inl e \<Rightarrow> (Some e, s0)
         | Inr route_choice_name \<Rightarrow>
             (let should_trimmed_messages = get_settings trimmed_messages s0;
                  messages' = (if should_trimmed_messages = Some True
                               then Local (trim_messages env (deref s0 messages) model)
                               else messages)
              in if route_choice_name = Some (IMAGE_GENERATION c)
                 then handle_trigger_async_image_gen c env query s0
                 else if route_choice_name = Some (VISION_IMAGE_PROCESSING c)
                 then (case extract_url env query of
                         u # _ \<Rightarrow> handle_vision c env u query False s0
                       | [] \<Rightarrow> handle_trigger_async_chat env model messages' msg s0)
                 else handle_trigger_async_chat env model messages' msg s0))"

text \<open>\<open>__handle_conversation\<close>, on the text of the message.\<close>

definition handle_conversation :: "conf \<Rightarrow> env \<Rightarrow> string \<Rightarrow> msgs \<Rightarrow> state \<Rightarrow> result" where
  "handle_conversation c env query messages s =
     (let model = get_settings chat_model s;
          msg = \<lparr>m_author = model, m_content = [], m_elements = [], m_actions = []\<rparr>
      in and_then (update_user_messages_history_with_context query (emit [Sent msg] s))
           (\<lambda>s1. if get_settings use_dynamic_conversation_routing s1 = Some True
                  then handle_dynamic_conversation_routing_chat c env messages model msg query s1
                  else handle_trigger_async_chat env model messages msg s1))"

text \<open>
  The loop of \<open>__handle_files_attachment\<close> over the attachments, in order; an exception
  raised for one attachment ends the loop. A text attachment replaces the content of the
  message by the text of the file and is handled as a conversation.
\<close>

definition handle_file ::
  "conf \<Rightarrow> env \<Rightarrow> string \<Rightarrow> msgs \<Rightarrow> attachment \<Rightarrow> state \<Rightarrow> result" where
  "handle_file c env prompt messages f s =
     (let mime_type = (case mime f of None \<Rightarrow> [] | Some t \<Rightarrow> t)
      in if py_in ''image'' mime_type then handle_vision c env (path f) prompt True s
         else if py_in ''text'' mime_type
         then (case read_text env (path f) of
                 Inl e \<Rightarrow> (Some e, emit [ReadText (path f)] s)
               | Inr t \<Rightarrow> handle_conversation c env t messages (emit [ReadText (path f)] s))
         else if py_in ''audio'' mime_type then handle_audio_transcribe c env (path f) s
         else (None, s))"

fun handle_files ::
  "conf \<Rightarrow> env \<Rightarrow> string \<Rightarrow> msgs \<Rightarrow> attachment list \<Rightarrow> state \<Rightarrow> result" where
  "handle_files c env prompt messages [] s = (None, s)"
| "handle_files c env prompt messages (f # fs) s =
     and_then (handle_file c env prompt messages f s) (handle_files c env prompt messages fs)"

definition handle_files_attachment :: "conf \<Rightarrow> env \<Rightarrow> inbound \<Rightarrow> msgs \<Rightarrow> state \<Rightarrow> result" where
  "handle_files_attachment c env message messages s =
     (if in_elements message = [] then (None, emit [Sent (plain_message ''No file attached'')] s)
      else and_then (update_user_messages_history_with_context (in_content message) s)
             (handle_files c env (in_content message) messages (in_elements message)))"

definition on_message :: "conf \<Rightarrow> env \<Rightarrow> inbound \<Rightarrow> state \<Rightarrow> result" where
  "on_message c env message s =
     (let messages = session_messages s
      in if length (in_elements message) > 0
         then handle_files_attachment c env message messages s
         else handle_conversation c env (in_content message) messages s)"

text \<open>
  \<open>__handle_tts_response\<close> and the action callback in front of it. The two elements of
  its message are built from the non-empty text and from the path of the audio file.
\<close>

definition handle_tts_response :: "env \<Rightarrow> string \<Rightarrow> state \<Rightarrow> result" where
  "handle_tts_response env context s =
     (if get_settings enable_tts_response s = Some False then (None, s)
      else if length context = 0 then (None, s)
      else
        (let model = get_settings tts_model s;
             voice = get_settings tts_voice_preset_model s;
             s0 = emit [Enter TextToSpeech, CallSpeech model voice context] s
         in case speech_create env model voice context of
              Some e \<Rightarrow> (Some e, s0)
            | None \<Rightarrow>
                (let temp_filepath = temp_dir env @ ''/tts-output.mp3'';
                     s1 = emit [StreamToFile temp_filepath] s0;
                     elements = [Text ''Context'' context, Audio [] temp_filepath]
                 in if elements_raise elements then (Some ValueError, s1)
                    else update_assistant_messages_history_with_context context
                      (emit [Sent \<lparr>m_author = model,
                           m_content = ''You're hearing an AI voice generated by OpenAI's '' @
                             py_str model @ '' model, using the '' @ py_str voice @
                             '' style.  You can customize this in Settings if you'd like!'',
                           m_elements = elements, m_actions = []\<rparr>] s1))))"

definition on_speak_chat_response :: "env \<Rightarrow> string \<Rightarrow> state \<Rightarrow> result" where
  "on_speak_chat_response env v s = handle_tts_response env v (emit [ActionRemoved] s)"

subsection \<open>Session start and settings update\<close>

text \<open>\<open>update_settings\<close>: six values are copied into the session store, in this order.\<close>

definition update_settings :: "conf \<Rightarrow> settings \<Rightarrow> state \<Rightarrow> result" where
  "update_settings c st s =
     (None,
      set_session (SETTINGS_ENABLE_TTS_RESPONSE c) (EBool (enable_tts_response st))
       (set_session (SETTINGS_TTS_VOICE_PRESET_MODEL c) (EStr (tts_voice_preset_model st))
         (set_session (SETTINGS_TTS_MODEL c) (EStr (tts_model st))
           (set_session (SETTINGS_USE_DYNAMIC_CONVERSATION_ROUTING c)
              (EBool (use_dynamic_conversation_routing st))
             (set_session (SETTINGS_VISION_MODEL c) (EStr (vision_model st))
               (set_session (SETTINGS_CHAT_MODEL c) (EStr (chat_model st)) s))))))"

definition system_message :: message where
  "system_message = \<lparr>role = ''system'',
     content = ''You are a helpful assistant who tries their best to answer questions: ''\<rparr>"

definition greeting :: string where
  "greeting = ''Hello! I'm here to assist you. Please don't hesitate to ask me anything you'd like to know.''"

text \<open>\<open>__config_chat_session\<close>: stores the seed, greets, and appends the greeting.\<close>

definition config_chat_session :: "conf \<Rightarrow> settings \<Rightarrow> state \<Rightarrow> result" where
  "config_chat_session c st s =
     update_assistant_messages_history_with_context greeting
       (emit [Sent (plain_message greeting)]
         (set_session ''message_history'' (EList [system_message])
           (set_session (SETTINGS_CHAT_MODEL c) (EStr (chat_model st)) s)))"

text \<open>
  \<open>start_chat\<close>: sending the settings form makes the framework store its initial values
  \<open>st\<close>, which the form returns; then the session is configured.
\<close>

definition start_chat :: "conf \<Rightarrow> settings \<Rightarrow> state \<Rightarrow> result" where
  "start_chat c st s = config_chat_session c st (s\<lparr>chat_settings := Some st\<rparr>)"

subsection \<open>A session as a sequence of callbacks\<close>

text \<open>
  After the start, the framework calls one callback per user event, each against the
  services as they answer at that moment. On a settings change it stores the new values
  before it calls \<open>update_settings\<close>. An exception that leaves a callback ends that
  callback only.
\<close>

datatype event_in = OnMessage inbound | SettingsUpdate settings | SpeakAction string

definition step :: "conf \<Rightarrow> env \<times> event_in \<Rightarrow> state \<Rightarrow> result" where
  "step c x s =
     (case snd x of
        OnMessage message \<Rightarrow> on_message c (fst x) message s
      | SettingsUpdate st \<Rightarrow> update_settings c st (s\<lparr>chat_settings := Some st\<rparr>)
      | SpeakAction v \<Rightarrow> on_speak_chat_response (fst x) v s)"

fun run :: "conf \<Rightarrow> (env \<times> event_in) list \<Rightarrow> state \<Rightarrow> state" where
  "run c [] s = s"
| "run c (x # xs) s = run c xs (snd (step c x s))"

text \<open>
  The session keys of \<open>llms_config\<close> written by \<open>update_settings\<close> are not the key of the
  history.
\<close>

definition conf_ok :: "conf \<Rightarrow> bool" where
  "conf_ok c =
     (SETTINGS_CHAT_MODEL c \<noteq> ''message_history'' \<and>
      SETTINGS_VISION_MODEL c \<noteq> ''message_history'' \<and>
      SETTINGS_USE_DYNAMIC_CONVERSATION_ROUTING c \<noteq> ''message_history'' \<and>
      SETTINGS_TTS_MODEL c \<noteq> ''message_history'' \<and>
      SETTINGS_TTS_VOICE_PRESET_MODEL c \<noteq> ''message_history'' \<and>
      SETTINGS_ENABLE_TTS_RESPONSE c \<noteq> ''message_history'')"

subsection \<open>Notions used in the statements\<close>

text \<open>
  The relation between the stored history before and after a piece of the program: the
  object under the history key is untouched, or it was a non-empty list and is now that
  list with entries added at its end.
\<close>

definition grows :: "state \<Rightarrow> state \<Rightarrow> bool" where
  "grows s s' =
     (user_session s' ''message_history'' = user_session s ''message_history'' \<or>
      (\<exists>h more. h \<noteq> [] \<and> user_session s ''message_history'' = Some (EList h) \<and>
         user_session s' ''message_history'' = Some (EList (h @ more))))"

text \<open>The capability handlers entered so far, in order.\<close>

fun entered_events :: "event list \<Rightarrow> handler list" where
  "entered_events [] = []"
| "entered_events (Enter h # evs) = h # entered_events evs"
| "entered_events (_ # evs) = entered_events evs"

definition entered :: "state \<Rightarrow> handler list" where
  "entered s = entered_events (log s)"

text \<open>The queries given to the classifier and the calls of the vision completion, in order.\<close>

fun route_calls :: "event list \<Rightarrow> string list" where
  "route_calls [] = []"
| "route_calls (CallRoute q # evs) = q # route_calls evs"
| "route_calls (_ # evs) = route_calls evs"

fun vision_calls :: "event list \<Rightarrow> (string option \<times> string \<times> string) list" where
  "vision_calls [] = []"
| "vision_calls (CallVision m p i # evs) = (m, p, i) # vision_calls evs"
| "vision_calls (_ # evs) = vision_calls evs"

text \<open>What a piece of the program added to the trace.\<close>

definition new_events :: "state \<Rightarrow> state \<Rightarrow> event list" where
  "new_events s s' = drop (length (log s)) (log s')"

subsection \<open>Concrete inputs\<close>

text \<open>A configuration, services that all succeed, and a session right after its seed was stored.\<close>

definition example_conf :: conf where
  "example_conf = \<lparr>
     SETTINGS_CHAT_MODEL = ''settings_chat_model'',
     SETTINGS_VISION_MODEL = ''settings_vision_model'',
     SETTINGS_USE_DYNAMIC_CONVERSATION_ROUTING = ''settings_use_dynamic_conversation_routing'',
     SETTINGS_TTS_MODEL = ''settings_tts_model'',
     SETTINGS_TTS_VOICE_PRESET_MODEL = ''settings_tts_voice_preset_model'',
     SETTINGS_ENABLE_TTS_RESPONSE = ''settings_enable_tts_response'',
     DEFAULT_VISION_MODEL = ''gemini/gemini-pro-vision'',
     DEFAULT_IMAGE_GEN_MODEL = ''dall-e-3'',
     DEFAULT_WHISPER_MODEL = ''whisper-1'',
     IMAGE_GENERATION = ''image-generation'',
     VISION_IMAGE_PROCESSING = ''vision-image-processing''\<rparr>"

definition example_env :: env where
  "example_env = \<lparr>
     route_layer = (\<lambda>q. Inr None),
     trim_messages = (\<lambda>e m. case e of EList h \<Rightarrow> EList (take 1 h) | _ \<Rightarrow> e),
     extract_url = (\<lambda>q. []),
     acompletion = (\<lambda>m e. ([''Hel'', [], ''lo''], None)),
     aimage_generation = (\<lambda>q m. Inr [\<lparr>url = ''https://img/1'', revised_prompt = ''a cat''\<rparr>]),
     supports_vision = (\<lambda>m. True),
     vision_completion = (\<lambda>m p i. Inr ''a dog''),
     transcriptions_create = (\<lambda>m p. Inr ''a transcript''),
     speech_create = (\<lambda>m v t. None),
     read_text = (\<lambda>p. Inr ''file text''),
     temp_dir = ''/tmp/tts''\<rparr>"

definition example_settings :: settings where
  "example_settings = \<lparr>chat_model = ''gpt-4'', vision_model = ''gpt-4-vision'',
     enable_tts_response = True, tts_model = ''tts-1'', tts_voice_preset_model = ''nova'',
     use_dynamic_conversation_routing = True, trimmed_messages = True\<rparr>"

definition boom :: exn where
  "boom = \<lparr>exn_type = ''<class 'openai.APIConnectionError'>'', exn_msg = ''Connection error.''\<rparr>"

definition empty_state :: state where
  "empty_state = \<lparr>user_session = Map.empty, chat_settings = None, log = []\<rparr>"

definition example_session :: "(env \<times> event_in) list" where
  "example_session =
     [(example_env, OnMessage \<lparr>in_content = ''hi'', in_elements = []\<rparr>),
      (example_env, SettingsUpdate example_settings),
      (example_env, SpeakAction ''Hello'')]"

definition seeded_state :: state where
  "seeded_state = \<lparr>user_session = [''message_history'' \<mapsto> EList [system_message]],
     chat_settings = None, log = []\<rparr>"

text \<open>A session some turns in, with dynamic routing and trimming switched on.\<close>

definition routed_state :: state where
  "routed_state = \<lparr>user_session = [''message_history'' \<mapsto>
       EList [system_message, \<lparr>role = ''user'', content = ''hi''\<rparr>,
              \<lparr>role = ''assistant'', content = ''Hello''\<rparr>]],
     chat_settings = Some example_settings, log = []\<rparr>"




definition no_vision_env :: env where
  "no_vision_env = example_env\<lparr>supports_vision := (\<lambda>m. False)\<rparr>"

definition failing_vision_env :: env where
  "failing_vision_env = example_env\<lparr>vision_completion := (\<lambda>m p i. Inl boom)\<rparr>"

definition failing_transcribe_env :: env where
  "failing_transcribe_env = example_env\<lparr>transcriptions_create := (\<lambda>m p. Inl boom)\<rparr>"

definition image_message :: inbound where
  "image_message = \<lparr>in_content = ''what is this'',
     in_elements = [\<lparr>path = ''b.png'', mime = Some ''image/png''\<rparr>]\<rparr>"

definition audio_message :: inbound where
  "audio_message = \<lparr>in_content = ''transcribe'',
     in_elements = [\<lparr>path = ''a.mp3'', mime = Some ''audio/mpeg''\<rparr>]\<rparr>"

definition audio_then_image_message :: inbound where
  "audio_then_image_message = \<lparr>in_content = ''what is this'',
     in_elements = [\<lparr>path = ''a.mp3'', mime = Some ''audio/mpeg''\<rparr>,
                    \<lparr>path = ''b.png'', mime = Some ''image/png''\<rparr>]\<rparr>"

definition tts_off_state :: state where
  "tts_off_state = routed_state\<lparr>chat_settings := Some (example_settings\<lparr>enable_tts_response := False\<rparr>)\<rparr>"

definition skipped_then_image_message :: inbound where
  "skipped_then_image_message = \<lparr>in_content = ''what is this'',
     in_elements = [\<lparr>path = ''n.bin'', mime = None\<rparr>,
                    \<lparr>path = ''b.png'', mime = Some ''image/png''\<rparr>]\<rparr>"

section \<open>Theorems\<close>

subsection \<open>The append operation\<close>

lemma update_history_noop:
  "context = [] \<or> rl = [] \<Longrightarrow> update_messages_history_with_context context rl s = (None, s)"
  by (auto simp: update_messages_history_with_context_def)

lemma update_history_append:
  assumes "context \<noteq> []" "rl \<noteq> []" "user_session s ''message_history'' = Some (EList h)" "h \<noteq> []"
  shows "update_messages_history_with_context context rl s =
           (None, s\<lparr>user_session := (user_session s)
              (''message_history'' \<mapsto> EList (h @ [\<lparr>role = rl, content = context\<rparr>]))\<rparr>)"
  using assms by (simp add: update_messages_history_with_context_def)

text \<open>
  C3, as the claim states it, fails: the append checks only that the role is not empty, so
  a role outside system, user and assistant is stored like any other. On the seeded
  session the role \<open>tool\<close> with content \<open>x\<close> is appended.
\<close>

theorem C3_unrecognized_role_counterexample:
  "\<not> recognized_role ''tool'' \<and>
   history (snd (update_messages_history_with_context ''x'' ''tool'' seeded_state))
     = [system_message, \<lparr>role = ''tool'', content = ''x''\<rparr>] \<and>
   history (snd (update_messages_history_with_context ''x'' ''tool'' seeded_state))
     \<noteq> history seeded_state"
  by (simp add: recognized_role_def update_messages_history_with_context_def history_def
      seeded_state_def)

text \<open>
  C3 (amended): the append is a no-op (it returns normally and the state, hence the stored
  history, is unchanged) whenever the content is empty or the role is empty; for every
  non-empty content and every non-empty role, recognized or not, on a session whose stored
  history is a non-empty list it returns normally and the stored history becomes the old
  one followed by exactly one message with that role and content, nothing else changing.
\<close>

theorem C3_append_amended:
  "(context = [] \<or> rl = [] \<longrightarrow>
      update_messages_history_with_context context rl s = (None, s)) \<and>
   (context \<noteq> [] \<and> rl \<noteq> [] \<and> user_session s ''message_history'' = Some (EList h) \<and> h \<noteq> [] \<longrightarrow>
      update_messages_history_with_context context rl s =
        (None, s\<lparr>user_session := (user_session s)
           (''message_history'' \<mapsto> EList (h @ [\<lparr>role = rl, content = context\<rparr>]))\<rparr>) \<and>
      history (snd (update_messages_history_with_context context rl s)) =
        history s @ [\<lparr>role = rl, content = context\<rparr>])"
  using update_history_noop [of "context" rl s] update_history_append [of "context" rl s h]
  by (auto simp: history_def)

theorem C3_append_amended_witness:
  "update_messages_history_with_context [] ''user'' seeded_state = (None, seeded_state) \<and>
   update_messages_history_with_context ''hi'' [] seeded_state = (None, seeded_state) \<and>
   history (snd (update_messages_history_with_context ''hi'' ''user'' seeded_state)) =
     [system_message, \<lparr>role = ''user'', content = ''hi''\<rparr>]"
  using C3_append_amended [of "[]" "''user''" seeded_state "[system_message]"]
    C3_append_amended [of "''hi''" "[]" seeded_state "[system_message]"]
    C3_append_amended [of "''hi''" "''user''" seeded_state "[system_message]"]
  by (simp add: seeded_state_def history_def)

subsection \<open>Evaluation\<close>

lemmas app_defs = step_def on_message_def handle_files_attachment_def handle_file_def
  handle_conversation_def handle_dynamic_conversation_routing_chat_def
  handle_trigger_async_chat_def handle_trigger_async_image_gen_def handle_vision_def
  handle_audio_transcribe_def handle_tts_response_def on_speak_chat_response_def
  update_settings_def start_chat_def config_chat_session_def handle_exception_error_def
  update_user_messages_history_with_context_def update_assistant_messages_history_with_context_def
  update_messages_history_with_context_def session_messages_def deref_def set_session_def
  get_settings_def emit_def and_then_def catch_def elements_raise_def Let_def

subsection \<open>The stored history only grows\<close>

lemma grows_refl [simp]: "grows s s"
  by (simp add: grows_def)

lemma grows_trans: "grows a b \<Longrightarrow> grows b c \<Longrightarrow> grows a c"
  unfolding grows_def by (elim disjE exE conjE) auto

lemma grows_emit [simp]: "grows s (emit evs s') = grows s s'"
  by (simp add: grows_def emit_def)

lemma grows_update:
  "grows s0 s \<Longrightarrow> grows s0 (snd (update_messages_history_with_context ctx rl s))"
proof -
  have "grows s (snd (update_messages_history_with_context ctx rl s))"
    by (auto simp: grows_def update_messages_history_with_context_def split: option.splits entry.splits)
  then show "grows s0 s \<Longrightarrow> ?thesis" by (rule grows_trans [rotated])
qed

lemma grows_update_assistant:
  "grows s0 s \<Longrightarrow> grows s0 (snd (update_assistant_messages_history_with_context ctx s))"
  by (simp add: update_assistant_messages_history_with_context_def grows_update)

lemma grows_update_user:
  "grows s0 s \<Longrightarrow> grows s0 (snd (update_user_messages_history_with_context ctx s))"
  by (simp add: update_user_messages_history_with_context_def grows_update)

lemma and_then_grows:
  "grows s0 (snd r) \<Longrightarrow> (\<And>s1. grows s0 s1 \<Longrightarrow> grows s0 (snd (f s1))) \<Longrightarrow>
   grows s0 (snd (and_then r f))"
  by (cases r) (auto simp: and_then_def split: option.splits)

lemma catch_grows:
  "grows s0 (snd r) \<Longrightarrow> (\<And>e s1. grows s0 s1 \<Longrightarrow> grows s0 (snd (h e s1))) \<Longrightarrow>
   grows s0 (snd (catch r h))"
  by (cases r) (auto simp: catch_def split: option.splits)

lemma grows_exception_error:
  "grows s0 s \<Longrightarrow> grows s0 (snd (handle_exception_error e s))"
  by (simp add: handle_exception_error_def)

lemma grows_chat:
  "grows s0 s \<Longrightarrow> grows s0 (snd (handle_trigger_async_chat env m ms cm s))"
  unfolding handle_trigger_async_chat_def
  by (intro catch_grows grows_exception_error)
     (auto simp: Let_def split: prod.splits option.splits intro!: and_then_grows grows_update_assistant)

lemma grows_image_gen:
  "grows s0 s \<Longrightarrow> grows s0 (snd (handle_trigger_async_image_gen c env q s))"
  unfolding handle_trigger_async_image_gen_def Let_def
  by (intro catch_grows grows_exception_error)
     (auto split: sum.splits list.splits intro!: and_then_grows grows_update_assistant)

lemma grows_vision:
  "grows s0 s \<Longrightarrow> grows s0 (snd (handle_vision c env i p l s))"
  unfolding handle_vision_def Let_def
  by (auto split: sum.splits intro!: and_then_grows grows_update_assistant)

lemma grows_transcribe:
  "grows s0 s \<Longrightarrow> grows s0 (snd (handle_audio_transcribe c env p s))"
  unfolding handle_audio_transcribe_def Let_def
  by (auto split: sum.splits intro!: grows_update_assistant)

lemma grows_routing:
  "grows s0 s \<Longrightarrow> grows s0 (snd (handle_dynamic_conversation_routing_chat c env ms m msg q s))"
  unfolding handle_dynamic_conversation_routing_chat_def Let_def
  by (auto split: sum.splits list.splits intro!: grows_chat grows_image_gen grows_vision)

lemma grows_conversation:
  "grows s0 s \<Longrightarrow> grows s0 (snd (handle_conversation c env q ms s))"
  unfolding handle_conversation_def Let_def
  by (auto intro!: and_then_grows grows_update_user grows_routing grows_chat)

lemma grows_file:
  "grows s0 s \<Longrightarrow> grows s0 (snd (handle_file c env p ms f s))"
  unfolding handle_file_def Let_def
  by (auto split: sum.splits intro!: grows_vision grows_conversation grows_transcribe)

lemma grows_files:
  "grows s0 s \<Longrightarrow> grows s0 (snd (handle_files c env p ms fs s))"
  by (induction fs arbitrary: s) (auto intro!: and_then_grows grows_file)

lemma grows_files_attachment:
  "grows s0 s \<Longrightarrow> grows s0 (snd (handle_files_attachment c env m ms s))"
  unfolding handle_files_attachment_def
  by (auto intro!: and_then_grows grows_update_user grows_files)

lemma grows_on_message:
  "grows s0 s \<Longrightarrow> grows s0 (snd (on_message c env m s))"
  unfolding on_message_def Let_def
  by (auto intro!: grows_files_attachment grows_conversation)

lemma grows_tts:
  "grows s0 s \<Longrightarrow> grows s0 (snd (handle_tts_response env v s))"
  unfolding handle_tts_response_def Let_def
  by (auto split: option.splits intro!: grows_update_assistant)

lemma grows_speak:
  "grows s0 s \<Longrightarrow> grows s0 (snd (on_speak_chat_response env v s))"
  unfolding on_speak_chat_response_def
  by (auto intro!: grows_tts)

lemma grows_set_session:
  "k \<noteq> ''message_history'' \<Longrightarrow> grows s0 (set_session k e s) = grows s0 s"
  by (simp add: grows_def set_session_def)

lemma grows_update_settings:
  "conf_ok c \<Longrightarrow> grows s0 s \<Longrightarrow> grows s0 (snd (update_settings c st s))"
  by (simp add: update_settings_def conf_ok_def grows_set_session)

lemma grows_chat_settings [simp]: "grows s0 (s\<lparr>chat_settings := x\<rparr>) = grows s0 s"
  by (simp add: grows_def)

lemma grows_step:
  "conf_ok c \<Longrightarrow> grows s0 s \<Longrightarrow> grows s0 (snd (step c x s))"
  unfolding step_def
  by (auto split: event_in.splits intro!: grows_on_message grows_update_settings grows_speak)

lemma grows_run:
  "conf_ok c \<Longrightarrow> grows s0 s \<Longrightarrow> grows s0 (run c xs s)"
  by (induction xs arbitrary: s) (auto intro: grows_step)

lemma grows_prefix: "grows s s' \<Longrightarrow> prefix (history s) (history s')"
  by (auto simp: grows_def history_def split: option.splits entry.splits)


subsection \<open>The seed stays first\<close>

lemma history_start_chat:
  "history (snd (start_chat c st s0)) = [system_message, \<lparr>role = ''assistant'', content = greeting\<rparr>]"
  by (simp add: start_chat_def config_chat_session_def set_session_def emit_def
      update_assistant_messages_history_with_context_def update_messages_history_with_context_def
      history_def greeting_def)

text \<open>
  C1: once \<open>start_chat\<close> has run (it always returns normally), the stored history is
  the seed system message followed by the greeting, and after any sequence of callbacks
  (inbound messages with or without attachments, with routing and trimming on or off,
  settings updates, speak actions, each against arbitrary services, failing or not) it is
  still non-empty with the seed system message first.
\<close>

theorem C1_seed_first:
  assumes "conf_ok c"
  shows "fst (start_chat c st s0) = None \<and>
         history (snd (start_chat c st s0)) =
           [system_message, \<lparr>role = ''assistant'', content = greeting\<rparr>] \<and>
         (\<exists>rest. history (run c xs (snd (start_chat c st s0))) = system_message # rest) \<and>
         history (run c xs (snd (start_chat c st s0))) \<noteq> [] \<and>
         hd (history (run c xs (snd (start_chat c st s0)))) = system_message"
proof -
  let ?s1 = "snd (start_chat c st s0)"
  have ret: "fst (start_chat c st s0) = None"
    by (simp add: start_chat_def config_chat_session_def set_session_def emit_def
      update_assistant_messages_history_with_context_def update_messages_history_with_context_def
      greeting_def)
  have "grows ?s1 (run c xs ?s1)"
    using assms by (intro grows_run) simp_all
  then have "prefix (history ?s1) (history (run c xs ?s1))"
    by (rule grows_prefix)
  then obtain more where "history (run c xs ?s1) = history ?s1 @ more"
    by (auto simp: prefix_def)
  then have h: "history (run c xs ?s1) =
      system_message # \<lparr>role = ''assistant'', content = greeting\<rparr> # more"
    by (simp add: history_start_chat)
  show ?thesis using ret h by (simp add: history_start_chat)
qed


theorem C1_seed_first_witness:
  "conf_ok example_conf \<and>
   history (run example_conf example_session
      (snd (start_chat example_conf example_settings empty_state))) =
     [system_message, \<lparr>role = ''assistant'', content = greeting\<rparr>,
      \<lparr>role = ''user'', content = ''hi''\<rparr>, \<lparr>role = ''assistant'', content = ''Hello''\<rparr>,
      \<lparr>role = ''assistant'', content = ''Hello''\<rparr>] \<and>
   hd (history (run example_conf example_session
      (snd (start_chat example_conf example_settings empty_state)))) = system_message"
proof -
  have ok: "conf_ok example_conf"
    by (simp add: conf_ok_def example_conf_def)
  have h: "history (run example_conf example_session
      (snd (start_chat example_conf example_settings empty_state))) =
     [system_message, \<lparr>role = ''assistant'', content = greeting\<rparr>,
      \<lparr>role = ''user'', content = ''hi''\<rparr>, \<lparr>role = ''assistant'', content = ''Hello''\<rparr>,
      \<lparr>role = ''assistant'', content = ''Hello''\<rparr>]"
    by (simp add: example_session_def example_env_def example_settings_def example_conf_def
        empty_state_def greeting_def history_def app_defs)
  show ?thesis
    using ok h C1_seed_first [OF ok, of example_settings empty_state example_session] by simp
qed

subsection \<open>Append-only history\<close>

text \<open>
  C10: the stored history is append-only. For one callback, for any sequence of callbacks,
  and for every handler taken alone, the stored history before is a prefix of the stored
  history after, whatever the settings (trimming included) and whatever the services
  answer; trimming only rebinds the local list that is sent with the request.
\<close>

theorem C10_append_only:
  assumes "conf_ok c"
  shows "prefix (history s) (history (snd (step c x s))) \<and>
         prefix (history s) (history (run c xs s)) \<and>
         prefix (history s) (history (snd (on_message c env message s))) \<and>
         prefix (history s) (history (snd (update_settings c st s))) \<and>
         prefix (history s) (history (snd (on_speak_chat_response env v s))) \<and>
         prefix (history s) (history (snd (handle_conversation c env query messages s))) \<and>
         prefix (history s)
           (history (snd (handle_dynamic_conversation_routing_chat c env messages model msg query s))) \<and>
         prefix (history s) (history (snd (handle_trigger_async_chat env model messages msg s))) \<and>
         prefix (history s) (history (snd (handle_trigger_async_image_gen c env query s))) \<and>
         prefix (history s) (history (snd (handle_vision c env input_image prompt is_local s))) \<and>
         prefix (history s) (history (snd (handle_audio_transcribe c env audio_path s))) \<and>
         prefix (history s) (history (snd (handle_tts_response env v s)))"
  using assms
  by (intro conjI grows_prefix grows_step grows_run grows_on_message grows_update_settings
      grows_speak grows_conversation grows_routing grows_chat grows_image_gen grows_vision
      grows_transcribe grows_tts) simp_all

theorem C10_append_only_witness:
  "conf_ok example_conf \<and>
   prefix (history routed_state)
     (history (snd (on_message example_conf example_env
        \<lparr>in_content = ''more'', in_elements = []\<rparr> routed_state))) \<and>
   history (snd (on_message example_conf example_env
        \<lparr>in_content = ''more'', in_elements = []\<rparr> routed_state)) =
     history routed_state @
       [\<lparr>role = ''user'', content = ''more''\<rparr>, \<lparr>role = ''assistant'', content = ''Hello''\<rparr>] \<and>
   CallCompletion (Some ''gpt-4'') (EList [system_message]) \<in>
     set (log (snd (on_message example_conf example_env
        \<lparr>in_content = ''more'', in_elements = []\<rparr> routed_state)))"
proof -
  have ok: "conf_ok example_conf"
    by (simp add: conf_ok_def example_conf_def)
  have ev: "history (snd (on_message example_conf example_env
        \<lparr>in_content = ''more'', in_elements = []\<rparr> routed_state)) =
     history routed_state @
       [\<lparr>role = ''user'', content = ''more''\<rparr>, \<lparr>role = ''assistant'', content = ''Hello''\<rparr>] \<and>
   CallCompletion (Some ''gpt-4'') (EList [system_message]) \<in>
     set (log (snd (on_message example_conf example_env
        \<lparr>in_content = ''more'', in_elements = []\<rparr> routed_state)))"
    by (simp add: routed_state_def example_env_def example_settings_def example_conf_def
        history_def app_defs)
  show ?thesis
    using ok ev C10_append_only [OF ok, of routed_state _ _ example_env
        "\<lparr>in_content = ''more'', in_elements = []\<rparr>"]
    by simp
qed

subsection \<open>Which handler runs\<close>

lemma entered_events_append: "entered_events (xs @ ys) = entered_events xs @ entered_events ys"
  by (induction xs rule: entered_events.induct) simp_all

lemma entered_emit: "entered (emit evs s) = entered s @ entered_events evs"
  by (simp add: entered_def emit_def entered_events_append)

lemma entered_events_tokens: "entered_events (map StreamToken ts) = []"
  by (induction ts) simp_all

lemma log_update: "log (snd (update_messages_history_with_context ctx rl s)) = log s"
  by (simp add: update_messages_history_with_context_def split: option.splits entry.splits)

lemma entered_update_assistant:
  "entered (snd (update_assistant_messages_history_with_context ctx s)) = entered s"
  by (simp add: entered_def update_assistant_messages_history_with_context_def log_update)

lemma get_settings_emit: "get_settings k (emit evs s) = get_settings k s"
  by (simp add: get_settings_def emit_def)

lemma deref_emit: "deref (emit evs s) m = deref s m"
  by (simp add: deref_def emit_def split: msgs.splits)

lemma and_then_alt: "and_then r f = (case fst r of None \<Rightarrow> f (snd r) | Some e \<Rightarrow> r)"
  by (cases r) (simp add: and_then_def split: option.splits)

lemma catch_alt: "catch r h = (case fst r of None \<Rightarrow> r | Some e \<Rightarrow> h e (snd r))"
  by (cases r) (simp add: catch_def split: option.splits)

lemma fst_chat: "fst (handle_trigger_async_chat env m ms cm s) = None"
  by (simp add: handle_trigger_async_chat_def catch_def and_then_def handle_exception_error_def
      Let_def split: prod.splits option.splits)

lemma entered_chat:
  "entered (snd (handle_trigger_async_chat env m ms cm s)) = entered s @ [ChatCompletion]"
proof -
  have upd: "\<And>ctx s'. entered (snd (update_assistant_messages_history_with_context ctx s')) = entered s'"
    by (rule entered_update_assistant)
  show ?thesis
    using upd
    by (auto simp: handle_trigger_async_chat_def catch_alt and_then_alt handle_exception_error_def
      Let_def entered_emit entered_events_tokens case_prod_beta split: option.splits)
qed



text \<open>
  C4: under dynamic routing, when the classifier returns a name (or none) that is not the
  image-generation name, and that either is not the vision name or comes with no URL
  extractable from the query, the routing function is the chat completion handler run on
  the (possibly trimmed) messages; it returns normally, and the chat completion handler is
  the only capability handler entered.
\<close>

theorem C4_fallback_to_chat:
  assumes "route_layer env query = Inr name"
    and "name \<noteq> Some (IMAGE_GENERATION c)"
    and "name \<noteq> Some (VISION_IMAGE_PROCESSING c) \<or> extract_url env query = []"
  shows "handle_dynamic_conversation_routing_chat c env messages model msg query s =
           handle_trigger_async_chat env model
             (if get_settings trimmed_messages s = Some True
              then Local (trim_messages env (deref s messages) model) else messages)
             msg (emit [CallRoute query] s) \<and>
         fst (handle_dynamic_conversation_routing_chat c env messages model msg query s) = None \<and>
         entered (snd (handle_dynamic_conversation_routing_chat c env messages model msg query s)) =
           entered s @ [ChatCompletion]"
proof -
  have eq: "handle_dynamic_conversation_routing_chat c env messages model msg query s =
           handle_trigger_async_chat env model
             (if get_settings trimmed_messages s = Some True
              then Local (trim_messages env (deref s messages) model) else messages)
             msg (emit [CallRoute query] s)"
    using assms
    by (auto simp: handle_dynamic_conversation_routing_chat_def Let_def get_settings_emit deref_emit
        split: list.splits)
  show ?thesis
    unfolding eq by (simp add: fst_chat entered_chat entered_emit)
qed

theorem C4_fallback_to_chat_witness:
  "route_layer (example_env\<lparr>route_layer := \<lambda>q. Inr (Some ''vision-image-processing'')\<rparr>)
      ''what is in the picture'' = Inr (Some ''vision-image-processing'') \<and>
   Some ''vision-image-processing'' \<noteq> Some (IMAGE_GENERATION example_conf) \<and>
   extract_url (example_env\<lparr>route_layer := \<lambda>q. Inr (Some ''vision-image-processing'')\<rparr>)
      ''what is in the picture'' = [] \<and>
   entered (snd (handle_dynamic_conversation_routing_chat example_conf
      (example_env\<lparr>route_layer := \<lambda>q. Inr (Some ''vision-image-processing'')\<rparr>)
      Alias (Some ''gpt-4'') (plain_message []) ''what is in the picture'' routed_state)) =
     [ChatCompletion]"
proof -
  let ?env = "example_env\<lparr>route_layer := \<lambda>q. Inr (Some ''vision-image-processing'')\<rparr>"
  have a: "route_layer ?env ''what is in the picture'' = Inr (Some ''vision-image-processing'')"
    by simp
  have b: "Some ''vision-image-processing'' \<noteq> Some (IMAGE_GENERATION example_conf)"
    by (simp add: example_conf_def)
  have c: "extract_url ?env ''what is in the picture'' = []"
    by (simp add: example_env_def)
  have d: "Some ''vision-image-processing'' \<noteq> Some (VISION_IMAGE_PROCESSING example_conf) \<or>
      extract_url ?env ''what is in the picture'' = []"
    using c by simp
  have e: "entered (snd (handle_dynamic_conversation_routing_chat example_conf ?env
      Alias (Some ''gpt-4'') (plain_message []) ''what is in the picture'' routed_state)) =
     entered routed_state @ [ChatCompletion]"
    using C4_fallback_to_chat [OF a b d, of Alias "Some ''gpt-4''" "plain_message []" routed_state]
    by blast
  have f: "entered routed_state = []"
    by (simp add: entered_def routed_state_def)
  show ?thesis
    using a b c e f by simp
qed

subsection \<open>Image generation\<close>

lemma history_emit: "history (emit evs s) = history s"
  by (simp add: history_def emit_def)







subsection \<open>Vision\<close>

lemma vision_calls_append: "vision_calls (xs @ ys) = vision_calls xs @ vision_calls ys"
  by (induction xs rule: vision_calls.induct) simp_all

lemma route_calls_append: "route_calls (xs @ ys) = route_calls xs @ route_calls ys"
  by (induction xs rule: route_calls.induct) simp_all

lemma new_events_emit: "new_events s (emit evs s) = evs"
  by (simp add: new_events_def emit_def)

text \<open>
  C6: when the resolved vision model (the default one for a local file, the one of the
  settings otherwise) does not support vision, the vision handler returns normally; all it
  adds to the trace is its own entry, the capability query and the capability-mismatch
  notice; it makes no call of the vision completion, and the session store, hence the
  stored history, is unchanged.
\<close>

theorem C6_vision_unsupported:
  assumes "vm = (if is_local then Some (DEFAULT_VISION_MODEL c) else get_settings vision_model s)"
    and "supports_vision env vm = False"
  shows "handle_vision c env input_image prompt is_local s =
           (None, emit [Enter Vision, CallSupportsVision vm, Sent (unsupported_vision_notice vm)] s) \<and>
         new_events s (snd (handle_vision c env input_image prompt is_local s)) =
           [Enter Vision, CallSupportsVision vm, Sent (unsupported_vision_notice vm)] \<and>
         vision_calls (log (snd (handle_vision c env input_image prompt is_local s))) =
           vision_calls (log s) \<and>
         user_session (snd (handle_vision c env input_image prompt is_local s)) = user_session s \<and>
         history (snd (handle_vision c env input_image prompt is_local s)) = history s"
proof -
  have eq: "handle_vision c env input_image prompt is_local s =
      (None, emit [Enter Vision, CallSupportsVision vm, Sent (unsupported_vision_notice vm)] s)"
    using assms by (cases is_local) (simp_all add: handle_vision_def Let_def emit_def get_settings_def)
  show ?thesis
    unfolding eq by (simp add: new_events_emit history_emit) (simp add: emit_def vision_calls_append)
qed

theorem C6_vision_unsupported_witness:
  "supports_vision no_vision_env (get_settings vision_model routed_state) = False \<and>
   handle_vision example_conf no_vision_env ''https://x/cat.png'' ''what is this'' False routed_state =
     (None, emit [Enter Vision, CallSupportsVision (Some ''gpt-4-vision''),
                  Sent (unsupported_vision_notice (Some ''gpt-4-vision''))] routed_state) \<and>
   history (snd (handle_vision example_conf no_vision_env ''https://x/cat.png'' ''what is this''
     False routed_state)) = history routed_state"
proof -
  have m: "get_settings vision_model routed_state = Some ''gpt-4-vision''"
    by (simp add: get_settings_def routed_state_def example_settings_def)
  have a: "get_settings vision_model routed_state =
      (if False then Some (DEFAULT_VISION_MODEL example_conf)
       else get_settings vision_model routed_state)"
    by simp
  have b: "supports_vision no_vision_env (get_settings vision_model routed_state) = False"
    by (simp add: no_vision_env_def)
  show ?thesis
    using b m C6_vision_unsupported [OF a b, of "''https://x/cat.png''" "''what is this''"]
    by (simp add: history_emit)
qed

subsection \<open>Text to speech\<close>

text \<open>
  C7: when the setting "enable TTS response" is \<open>False\<close> or the text is empty, the
  text-to-speech handler returns normally with the state unchanged: no speech synthesis
  call, no audio file, no message, no history entry. The action callback in front of it
  only removes the action.
\<close>

theorem C7_tts_noop:
  assumes "get_settings enable_tts_response s = Some False \<or> context = []"
  shows "handle_tts_response env context s = (None, s) \<and>
         on_speak_chat_response env context s = (None, emit [ActionRemoved] s) \<and>
         new_events s (snd (on_speak_chat_response env context s)) = [ActionRemoved] \<and>
         history (snd (on_speak_chat_response env context s)) = history s"
proof -
  have a: "handle_tts_response env context s' = (None, s')"
    if "get_settings enable_tts_response s' = Some False \<or> context = []" for s'
    using that by (auto simp: handle_tts_response_def)
  have b: "on_speak_chat_response env context s = (None, emit [ActionRemoved] s)"
    using assms by (simp add: on_speak_chat_response_def a get_settings_emit)
  show ?thesis
    using assms by (simp add: a b new_events_emit history_emit)
qed

theorem C7_tts_noop_witness:
  "get_settings enable_tts_response tts_off_state = Some False \<and>
   handle_tts_response example_env ''speak this'' tts_off_state = (None, tts_off_state) \<and>
   handle_tts_response example_env [] routed_state = (None, routed_state) \<and>
   history (snd (on_speak_chat_response example_env ''speak this'' tts_off_state)) =
     history tts_off_state"
proof -
  have a: "get_settings enable_tts_response tts_off_state = Some False"
    by (simp add: get_settings_def tts_off_state_def)
  have a': "get_settings enable_tts_response tts_off_state = Some False \<or> ''speak this'' = []"
    using a by simp
  have b: "get_settings enable_tts_response routed_state = Some False \<or> ([]::string) = []"
    by simp
  show ?thesis
    using a C7_tts_noop [OF a', of example_env] C7_tts_noop [OF b, of example_env]
    by (simp add: history_emit)
qed

subsection \<open>Attachments\<close>

lemma and_then_assoc: "and_then (and_then r f) g = and_then r (\<lambda>s. and_then (f s) g)"
  by (cases r) (simp add: and_then_def split: option.splits)

lemma handle_files_append:
  "handle_files c env p ms (xs @ ys) s =
     and_then (handle_files c env p ms xs s) (handle_files c env p ms ys)"
proof (induction xs arbitrary: s)
  case Nil
  show ?case by (simp add: and_then_def)
next
  case (Cons x xs)
  have ih: "handle_files c env p ms (xs @ ys) =
      (\<lambda>s'. and_then (handle_files c env p ms xs s') (handle_files c env p ms ys))"
    using Cons.IH by (intro ext)
  show ?case by (simp add: ih and_then_assoc)
qed

lemma handle_file_image:
  "py_in ''image'' (case mime f of None \<Rightarrow> [] | Some t \<Rightarrow> t) \<Longrightarrow>
   handle_file c env p ms f s = handle_vision c env (path f) p True s"
  by (simp add: handle_file_def)

lemma log_update_assistant:
  "log (snd (update_assistant_messages_history_with_context ctx s)) = log s"
  by (simp add: update_assistant_messages_history_with_context_def log_update)

lemma log_vision_local:
  "\<exists>rest. log (snd (handle_vision c env img p True s)) =
      log s @ Enter Vision # CallSupportsVision (Some (DEFAULT_VISION_MODEL c)) # rest \<and>
      route_calls rest = [] \<and>
      vision_calls rest =
        (if supports_vision env (Some (DEFAULT_VISION_MODEL c))
         then [(Some (DEFAULT_VISION_MODEL c), p, img)] else [])"
  by (auto simp: handle_vision_def Let_def and_then_alt emit_def log_update_assistant
      unsupported_vision_notice_def split: sum.splits option.splits)

text \<open>
  An image-type attachment that the loop over the attachments reaches (appending the prompt
  and handling the earlier attachments returned normally) is handed to the vision handler
  as a local file: the capability query and the completion call, when made, are for the
  hardcoded default vision model, whatever the settings hold, and the classifier is not
  called for it.
\<close>

lemma image_attachment_reached:
  assumes "in_elements message = pre @ f # post"
    and "py_in ''image'' (case mime f of None \<Rightarrow> [] | Some t \<Rightarrow> t)"
    and "and_then (update_user_messages_history_with_context (in_content message) s)
           (handle_files c env (in_content message) (session_messages s) pre) = (None, s1)"
  shows "on_message c env message s =
           and_then (handle_vision c env (path f) (in_content message) True s1)
             (handle_files c env (in_content message) (session_messages s) post) \<and>
         take 2 (new_events s1 (snd (handle_vision c env (path f) (in_content message) True s1))) =
           [Enter Vision, CallSupportsVision (Some (DEFAULT_VISION_MODEL c))] \<and>
         vision_calls (new_events s1 (snd (handle_vision c env (path f) (in_content message) True s1))) =
           (if supports_vision env (Some (DEFAULT_VISION_MODEL c))
            then [(Some (DEFAULT_VISION_MODEL c), in_content message, path f)] else []) \<and>
         route_calls (new_events s1 (snd (handle_vision c env (path f) (in_content message) True s1))) = []"
proof -
  let ?p = "in_content message" and ?ms = "session_messages s"
  have "on_message c env message s =
      and_then (update_user_messages_history_with_context ?p s)
        (handle_files c env ?p ?ms (pre @ f # post))"
    using assms(1) by (simp add: on_message_def handle_files_attachment_def)
  also have "\<dots> = and_then
      (and_then (update_user_messages_history_with_context ?p s) (handle_files c env ?p ?ms pre))
      (handle_files c env ?p ?ms (f # post))"
  proof -
    have "handle_files c env ?p ?ms (pre @ f # post) =
        (\<lambda>s'. and_then (handle_files c env ?p ?ms pre s') (handle_files c env ?p ?ms (f # post)))"
      by (intro ext handle_files_append)
    then show ?thesis by (simp add: and_then_assoc)
  qed
  also have "\<dots> = handle_files c env ?p ?ms (f # post) s1"
    using assms(3) by (simp add: and_then_def)
  also have "\<dots> = and_then (handle_vision c env (path f) ?p True s1)
      (handle_files c env ?p ?ms post)"
    using assms(2) by (simp add: handle_file_image)
  finally have eq: "on_message c env message s =
      and_then (handle_vision c env (path f) ?p True s1) (handle_files c env ?p ?ms post)" .
  obtain rest where r: "log (snd (handle_vision c env (path f) ?p True s1)) =
      log s1 @ Enter Vision # CallSupportsVision (Some (DEFAULT_VISION_MODEL c)) # rest"
    "route_calls rest = []"
    "vision_calls rest = (if supports_vision env (Some (DEFAULT_VISION_MODEL c))
         then [(Some (DEFAULT_VISION_MODEL c), ?p, path f)] else [])"
    using log_vision_local [of c env "path f" ?p s1] by blast
  show ?thesis
    using eq r by (simp add: new_events_def)
qed

text \<open>
  C8 does not hold for a message whose image attachment comes after an attachment whose
  handler raises. Here the transcription of the first attachment fails; nothing catches
  the exception, it ends the loop and leaves \<open>on_message\<close>, and the vision handler is never
  entered for the image that follows.
\<close>

theorem C8_image_after_failing_attachment_not_handled:
  "in_elements audio_then_image_message =
     [\<lparr>path = ''a.mp3'', mime = Some ''audio/mpeg''\<rparr>, \<lparr>path = ''b.png'', mime = Some ''image/png''\<rparr>] \<and>
   py_in ''image'' ''image/png'' \<and>
   fst (on_message example_conf failing_transcribe_env audio_then_image_message routed_state) =
     Some boom \<and>
   entered (snd (on_message example_conf failing_transcribe_env audio_then_image_message
     routed_state)) = [Transcription]"
  by (simp add: audio_then_image_message_def failing_transcribe_env_def example_env_def
      example_conf_def routed_state_def entered_def app_defs)

lemma image_attachment_reached_example:
  "py_in ''image'' ''image/png'' \<and>
   fst (and_then (update_user_messages_history_with_context ''what is this'' routed_state)
          (handle_files example_conf example_env ''what is this'' (session_messages routed_state)
             [\<lparr>path = ''n.bin'', mime = None\<rparr>])) = None \<and>
   vision_calls (log (snd (on_message example_conf example_env skipped_then_image_message
      routed_state))) = [(Some ''gemini/gemini-pro-vision'', ''what is this'', ''b.png'')] \<and>
   route_calls (log (snd (on_message example_conf example_env skipped_then_image_message
      routed_state))) = [] \<and>
   entered (snd (on_message example_conf example_env skipped_then_image_message routed_state)) =
     [Vision]"
proof -
  let ?r = "and_then (update_user_messages_history_with_context ''what is this'' routed_state)
          (handle_files example_conf example_env ''what is this'' (session_messages routed_state)
             [\<lparr>path = ''n.bin'', mime = None\<rparr>])"
  let ?f = "\<lparr>path = ''b.png'', mime = Some ''image/png''\<rparr>"
  have a: "in_elements skipped_then_image_message = [\<lparr>path = ''n.bin'', mime = None\<rparr>] @ ?f # []"
    by (simp add: skipped_then_image_message_def)
  have b: "py_in ''image'' (case mime ?f of None \<Rightarrow> [] | Some t \<Rightarrow> t)"
    by simp
  have n: "fst ?r = None"
    by (simp add: routed_state_def app_defs)
  have c: "and_then (update_user_messages_history_with_context
        (in_content skipped_then_image_message) routed_state)
      (handle_files example_conf example_env (in_content skipped_then_image_message)
        (session_messages routed_state) [\<lparr>path = ''n.bin'', mime = None\<rparr>]) = (None, snd ?r)"
    using n by (simp add: skipped_then_image_message_def prod_eq_iff)
  have ev: "vision_calls (log (snd (on_message example_conf example_env skipped_then_image_message
      routed_state))) = [(Some ''gemini/gemini-pro-vision'', ''what is this'', ''b.png'')] \<and>
   route_calls (log (snd (on_message example_conf example_env skipped_then_image_message
      routed_state))) = [] \<and>
   entered (snd (on_message example_conf example_env skipped_then_image_message routed_state)) =
     [Vision]"
    by (simp add: skipped_then_image_message_def example_env_def example_conf_def
        routed_state_def entered_def app_defs)
  have "on_message example_conf example_env skipped_then_image_message routed_state =
      and_then (handle_vision example_conf example_env (path ?f)
          (in_content skipped_then_image_message) True (snd ?r))
        (handle_files example_conf example_env (in_content skipped_then_image_message)
          (session_messages routed_state) [])"
    using image_attachment_reached [OF a b c] by blast
  then show ?thesis
    using b n ev by simp
qed

subsection \<open>Failures of the remote services\<close>

lemma chat_failure_caught:
  assumes "acompletion env model (deref s messages) = (parts, Some e)"
  shows "handle_trigger_async_chat env model messages msg s =
           (None, emit (Enter ChatCompletion # CallCompletion model (deref s messages) #
               map StreamToken (filter (\<lambda>t. t \<noteq> []) parts) @ [Sent (failure_message e)]) s)"
  using assms
  by (simp add: handle_trigger_async_chat_def Let_def catch_def handle_exception_error_def
      emit_def deref_def split: msgs.splits)

lemma image_gen_failure_caught:
  assumes "aimage_generation env query (DEFAULT_IMAGE_GEN_MODEL c) = Inl e"
  shows "fst (handle_trigger_async_image_gen c env query s) = None \<and>
         last (log (snd (handle_trigger_async_image_gen c env query s))) = Sent (failure_message e) \<and>
         user_session (snd (handle_trigger_async_image_gen c env query s)) = user_session s"
  using assms
  by (simp add: handle_trigger_async_image_gen_def Let_def catch_def handle_exception_error_def
      emit_def)

lemma vision_failure_propagates:
  assumes "vm = (if is_local then Some (DEFAULT_VISION_MODEL c) else get_settings vision_model s)"
    and "supports_vision env vm"
    and "vision_completion env vm prompt input_image = Inl e"
  shows "fst (handle_vision c env input_image prompt is_local s) = Some e \<and>
         last (log (snd (handle_vision c env input_image prompt is_local s))) =
           CallVision vm prompt input_image \<and>
         user_session (snd (handle_vision c env input_image prompt is_local s)) = user_session s"
  using assms
  by (cases is_local) (simp_all add: handle_vision_def Let_def emit_def get_settings_def)

lemma transcription_failure_propagates:
  assumes "transcriptions_create env (DEFAULT_WHISPER_MODEL c) audio_path = Inl e"
  shows "handle_audio_transcribe c env audio_path s =
           (Some e, emit [Enter Transcription, CallTranscribe (DEFAULT_WHISPER_MODEL c) audio_path] s)"
  using assms by (simp add: handle_audio_transcribe_def Let_def)

lemma transcription_empty_transcript_raises:
  assumes "transcriptions_create env (DEFAULT_WHISPER_MODEL c) audio_path = Inr []"
  shows "handle_audio_transcribe c env audio_path s =
           (Some ValueError,
            emit [Enter Transcription, CallTranscribe (DEFAULT_WHISPER_MODEL c) audio_path] s)"
  using assms by (simp add: handle_audio_transcribe_def Let_def elements_raise_def)

lemma vision_empty_description_raises:
  assumes "vm = (if is_local then Some (DEFAULT_VISION_MODEL c) else get_settings vision_model s)"
    and "supports_vision env vm"
    and "vision_completion env vm prompt input_image = Inr []"
  shows "fst (handle_vision c env input_image prompt is_local s) = Some ValueError \<and>
         last (log (snd (handle_vision c env input_image prompt is_local s))) =
           CallVision vm prompt input_image \<and>
         user_session (snd (handle_vision c env input_image prompt is_local s)) = user_session s"
  using assms
  by (cases is_local)
     (simp_all add: handle_vision_def Let_def emit_def get_settings_def elements_raise_def)

text \<open>
  C2 does not hold for the vision and transcription handlers: chat completion and image
  generation catch the failure and send the failure message (the two lemmas above), but
  a failing vision completion or transcription leaves \<open>on_message\<close> as an exception,
  and no failure message is sent. The stored history is not touched by the failing call.
  The same missing \<open>try\<close> is what ends the loop over the attachments when the handler
  of an earlier attachment fails.
\<close>

theorem C2_vision_and_transcription_failures_escape:
  "fst (on_message example_conf failing_vision_env image_message routed_state) = Some boom \<and>
   last (log (snd (on_message example_conf failing_vision_env image_message routed_state))) =
     CallVision (Some ''gemini/gemini-pro-vision'') ''what is this'' ''b.png'' \<and>
   Sent (failure_message boom) \<notin>
     set (log (snd (on_message example_conf failing_vision_env image_message routed_state))) \<and>
   fst (on_message example_conf failing_transcribe_env audio_message routed_state) = Some boom \<and>
   log (snd (on_message example_conf failing_transcribe_env audio_message routed_state)) =
     [Enter Transcription, CallTranscribe ''whisper-1'' ''a.mp3'']"
  by (simp add: image_message_def audio_message_def failing_vision_env_def
      failing_transcribe_env_def example_env_def example_conf_def routed_state_def
      failure_message_def plain_message_def boom_def app_defs)

end
